theory Spec2Isabelle
  imports Main "HOL-Library.Word"
begin

section \<open>JavaScript strings\<close>

text \<open>
  A JavaScript string is a sequence of UTF-16 code units: \<^verbatim>\<open>length\<close>,
  \<^verbatim>\<open>substring\<close>, \<^verbatim>\<open>split\<close> and \<^verbatim>\<open>startsWith\<close> all count and cut code
  units. \<open>ascii\<close> embeds an ASCII literal of the source.
\<close>

type_synonym jsstring = "16 word list"

definition ascii :: "string \<Rightarrow> jsstring" where
  "ascii s = map of_char s"

text \<open>\<^verbatim>\<open>if (s)\<close> on a string that may be absent: \<^verbatim>\<open>undefined\<close>, \<^verbatim>\<open>null\<close> and the
  empty string are falsy.\<close>

definition truthy :: "jsstring option \<Rightarrow> bool" where
  "truthy s = (case s of None \<Rightarrow> False | Some t \<Rightarrow> t \<noteq> [])"

text \<open>\<^verbatim>\<open>s.startsWith(p)\<close>.\<close>

definition startsWith :: "jsstring \<Rightarrow> jsstring \<Rightarrow> bool" where
  "startsWith s p = (take (length p) s = p)"

text \<open>\<^verbatim>\<open>s.split(sep)\<close> for a separator of one code unit: the segments between the
  separators, the empty ones included; the empty string gives one empty segment.\<close>

fun split :: "16 word \<Rightarrow> jsstring \<Rightarrow> jsstring list" where
  "split sep [] = [Nil]"
| "split sep (c # cs) =
     (if c = sep then [] # split sep cs
      else (case split sep cs of
              [] \<Rightarrow> [c # Nil]
            | seg # segs \<Rightarrow> (c # seg) # segs))"

text \<open>\<^verbatim>\<open>xs[i]\<close> on an array: \<^verbatim>\<open>undefined\<close> (here \<open>None\<close>) out of range.\<close>

definition at_index :: "'a list \<Rightarrow> nat \<Rightarrow> 'a option" where
  "at_index xs i = (if i < length xs then Some (xs ! i) else None)"

text \<open>\<^verbatim>\<open>s.substring(0, n)\<close>.\<close>

definition substring0 :: "jsstring \<Rightarrow> nat \<Rightarrow> jsstring" where
  "substring0 s n = take n s"

text \<open>The decimal numeral a template literal \<^verbatim>\<open>${n}\<close> prints for an integer.\<close>

fun digits :: "nat \<Rightarrow> jsstring" where
  "digits n =
     (if n < 10 then [48 + of_nat n]
      else digits (n div 10) @ [48 + of_nat (n mod 10)])"

declare digits.simps [simp del]

definition String_of_int :: "int \<Rightarrow> jsstring" where
  "String_of_int i = (if i < 0 then 45 # digits (nat (- i)) else digits (nat i))"

definition underscore :: "16 word" where
  "underscore = 95"

definition newline :: "16 word" where
  "newline = 10"


section \<open>Configuration and constants\<close>

definition DEFAULT_LANG :: jsstring where
  "DEFAULT_LANG = ascii ''en''"

text \<open>The own properties of the object literal \<^verbatim>\<open>SUPPORTED_LANGS\<close>, in insertion order.\<close>

definition SUPPORTED_LANGS :: "(jsstring \<times> jsstring) list" where
  "SUPPORTED_LANGS =
     [(ascii ''zh'', ascii ''Chinese''),
      (ascii ''en'', ascii ''English''),
      (ascii ''ja'', ascii ''Japanese''),
      (ascii ''ru'', ascii ''Russian'')]"

text \<open>
  \<^verbatim>\<open>SUPPORTED_LANGS[langCode]\<close> is a property read on a plain object: a key that is not
  an own property is looked up on \<^verbatim>\<open>Object.prototype\<close>, whose properties are built-in
  functions and the \<^verbatim>\<open>__proto__\<close> accessor; only then is the value \<^verbatim>\<open>undefined\<close>.
\<close>

datatype jsvalue =
    Undefined
  | String jsstring
  | NativeFunction jsstring
  | PrototypeObject

definition Object_prototype :: "(jsstring \<times> jsvalue) list" where
  "Object_prototype =
     [(ascii ''constructor'', NativeFunction (ascii ''Object'')),
      (ascii ''__defineGetter__'', NativeFunction (ascii ''__defineGetter__'')),
      (ascii ''__defineSetter__'', NativeFunction (ascii ''__defineSetter__'')),
      (ascii ''hasOwnProperty'', NativeFunction (ascii ''hasOwnProperty'')),
      (ascii ''__lookupGetter__'', NativeFunction (ascii ''__lookupGetter__'')),
      (ascii ''__lookupSetter__'', NativeFunction (ascii ''__lookupSetter__'')),
      (ascii ''isPrototypeOf'', NativeFunction (ascii ''isPrototypeOf'')),
      (ascii ''propertyIsEnumerable'', NativeFunction (ascii ''propertyIsEnumerable'')),
      (ascii ''toString'', NativeFunction (ascii ''toString'')),
      (ascii ''valueOf'', NativeFunction (ascii ''valueOf'')),
      (ascii ''__proto__'', PrototypeObject),
      (ascii ''toLocaleString'', NativeFunction (ascii ''toLocaleString''))]"

definition get_property :: "(jsstring \<times> jsstring) list \<Rightarrow> jsstring \<Rightarrow> jsvalue" where
  "get_property obj key =
     (case map_of obj key of
        Some v \<Rightarrow> String v
      | None \<Rightarrow>
          (case map_of Object_prototype key of
             Some v \<Rightarrow> v
           | None \<Rightarrow> Undefined))"

text \<open>\<^verbatim>\<open>v || s\<close> followed by the string conversion of a template literal.\<close>

fun or_else :: "jsvalue \<Rightarrow> jsstring \<Rightarrow> jsstring" where
  "or_else Undefined s = s"
| "or_else (String v) s = (if v = [] then s else v)"
| "or_else (NativeFunction n) s = ascii ''function '' @ n @ ascii ''() { [native code] }''"
| "or_else PrototypeObject s = ascii ''[object Object]''"

section \<open>Errors\<close>

text \<open>
  What the program throws: a rejected \<^verbatim>\<open>fetch\<close>, a property read on \<^verbatim>\<open>undefined\<close> or
  \<^verbatim>\<open>null\<close>, and the store's refusal to bind \<^verbatim>\<open>undefined\<close> to a statement; each with
  its message.
\<close>

datatype error = FetchError jsstring | TypeError jsstring | D1_TYPE_ERROR jsstring

fun message_of :: "error \<Rightarrow> jsstring" where
  "message_of (FetchError m) = m"
| "message_of (TypeError m) = m"
| "message_of (D1_TYPE_ERROR m) = m"

section \<open>The store\<close>

text \<open>
  Table \<^verbatim>\<open>users\<close> has the primary key \<^verbatim>\<open>user_id\<close>: a map from the key to the other
  columns. Table \<^verbatim>\<open>messages\<close> has an auto-increment key of its own and an index, not
  a constraint, on \<^verbatim>\<open>admin_message_id\<close>: the list of its rows in insertion order.
  Integer columns hold what was written (\<^verbatim>\<open>0\<close> by default), text columns may be NULL.
\<close>

record user_row =
  username :: "jsstring option"
  first_name :: jsstring
  is_verified :: int
  language :: "jsstring option"
  is_blocked :: int
  blocked_at :: "jsstring option"
  created_at :: int

record message_row =
  row_id :: nat
  admin_message_id :: int
  user_id :: int
  guest_message_id :: int
  row_created_at :: int

record db =
  users :: "int \<rightharpoonup> user_row"
  messages :: "message_row list"

text \<open>The sender of an inbound event (\<^verbatim>\<open>message.from\<close>, \<^verbatim>\<open>callback.from\<close>).\<close>

record tg_user =
  from_id :: int
  from_username :: "jsstring option"
  from_first_name :: jsstring

definition getUser :: "db \<Rightarrow> int \<Rightarrow> user_row option" where
  "getUser d userId = users d userId"

text \<open>
  \<^verbatim>\<open>bind\<close> on a prepared statement refuses a JavaScript \<^verbatim>\<open>undefined\<close>: the statement
  is not run and the call throws. The \<^verbatim>\<open>username\<close> of a sender is \<^verbatim>\<open>undefined\<close> (here
  \<open>None\<close>) when the sender has none; in a row, \<open>None\<close> is NULL.
\<close>

definition bind_username :: "jsstring option \<Rightarrow> error + jsstring option" where
  "bind_username v =
     (case v of
        None \<Rightarrow>
          Inl (D1_TYPE_ERROR
                 (ascii ''D1_TYPE_ERROR: Type '' @ [0x27] @ ascii ''undefined'' @ [0x27]
                    @ ascii '' not supported for value '' @ [0x27] @ ascii ''undefined''
                    @ [0x27]))
      | Some s \<Rightarrow> Inr (Some s))"

text \<open>
  \<^verbatim>\<open>existing.username !== user.username\<close>: a column read from the store is never
  \<^verbatim>\<open>undefined\<close>, so the two differ whenever the sender has no username.
\<close>

definition username_differs :: "jsstring option \<Rightarrow> jsstring option \<Rightarrow> bool" where
  "username_differs stored sent = (sent = None \<or> stored \<noteq> sent)"

text \<open>What \<^verbatim>\<open>upsertUser\<close> returns: \<^verbatim>\<open>{ is_new: true }\<close> or the row read before the
  update.\<close>

datatype upserted = IsNew | Existing user_row

definition upsertUser :: "db \<Rightarrow> tg_user \<Rightarrow> int \<Rightarrow> error + upserted \<times> db" where
  "upsertUser d user now =
     (case getUser d (from_id user) of
        None \<Rightarrow>
          (case bind_username (from_username user) of
             Inl err \<Rightarrow> Inl err
           | Inr bound \<Rightarrow>
               Inr (IsNew,
                    d\<lparr>users := (users d)(from_id user \<mapsto>
                         \<lparr>username = bound, first_name = from_first_name user,
                          is_verified = 0, language = None, is_blocked = 0, blocked_at = None,
                          created_at = now\<rparr>)\<rparr>))
      | Some existing \<Rightarrow>
          if username_differs (username existing) (from_username user)
             \<or> first_name existing \<noteq> from_first_name user
          then
            (case bind_username (from_username user) of
               Inl err \<Rightarrow> Inl err
             | Inr bound \<Rightarrow>
                 Inr (Existing existing,
                      d\<lparr>users := (users d)(from_id user \<mapsto>
                           existing\<lparr>username := bound,
                                    first_name := from_first_name user\<rparr>)\<rparr>))
          else Inr (Existing existing, d))"

text \<open>The fields the callers read from the returned object; a field the object lacks is
  \<^verbatim>\<open>undefined\<close>, which is falsy.\<close>

fun dbUser_is_blocked :: "upserted \<Rightarrow> bool" where
  "dbUser_is_blocked IsNew = False"
| "dbUser_is_blocked (Existing r) = (is_blocked r \<noteq> 0)"

fun dbUser_is_verified :: "upserted \<Rightarrow> bool" where
  "dbUser_is_verified IsNew = False"
| "dbUser_is_verified (Existing r) = (is_verified r \<noteq> 0)"

fun dbUser_language :: "upserted \<Rightarrow> jsstring option" where
  "dbUser_language IsNew = None"
| "dbUser_language (Existing r) = language r"

definition saveMessageMapping :: "db \<Rightarrow> int \<Rightarrow> int \<Rightarrow> int \<Rightarrow> int \<Rightarrow> db" where
  "saveMessageMapping d adminMsgId userId guestMsgId now =
     d\<lparr>messages := messages d @
          [\<lparr>row_id = Suc (length (messages d)), admin_message_id = adminMsgId,
            user_id = userId, guest_message_id = guestMsgId, row_created_at = now\<rparr>]\<rparr>"

text \<open>\<^verbatim>\<open>first()\<close> gives the first row of the result, or \<^verbatim>\<open>null\<close>.\<close>

definition getOriginalSender :: "db \<Rightarrow> int \<Rightarrow> (int \<times> int) option" where
  "getOriginalSender d adminMsgId =
     (case find (\<lambda>r. admin_message_id r = adminMsgId) (messages d) of
        None \<Rightarrow> None
      | Some r \<Rightarrow> Some (user_id r, guest_message_id r))"

definition set_is_verified :: "db \<Rightarrow> int \<Rightarrow> db" where
  "set_is_verified d userId =
     (case users d userId of
        None \<Rightarrow> d
      | Some r \<Rightarrow> d\<lparr>users := (users d)(userId \<mapsto> r\<lparr>is_verified := 1\<rparr>)\<rparr>)"

definition set_language :: "db \<Rightarrow> jsstring option \<Rightarrow> int \<Rightarrow> db" where
  "set_language d langCode userId =
     (case users d userId of
        None \<Rightarrow> d
      | Some r \<Rightarrow> d\<lparr>users := (users d)(userId \<mapsto> r\<lparr>language := langCode\<rparr>)\<rparr>)"


section \<open>Inbound events\<close>

text \<open>
  A \<^verbatim>\<open>message\<close> update. \<open>reply_to_message\<close> holds the \<^verbatim>\<open>message_id\<close> of the message
  replied to; the six media fields say whether the property is present (the source tests
  them for truthiness only).
\<close>

record message =
  msg_from :: tg_user
  chat_id :: int
  message_id :: int
  reply_to_message :: "int option"
  msg_text :: "jsstring option"
  caption :: "jsstring option"
  photo :: bool
  video :: bool
  document :: bool
  voice :: bool
  audio :: bool
  animation :: bool

text \<open>A \<^verbatim>\<open>callback_query\<close> update; \<open>cb_message\<close> is \<^verbatim>\<open>callback.message.message_id\<close>
  when the update carries a message.\<close>

record callback_query =
  cb_id :: jsstring
  cb_from :: tg_user
  cb_data :: "jsstring option"
  cb_message :: "int option"

datatype update = Message message | Callback callback_query | Neither

section \<open>The outside: the messaging platform, the translation service, the clock\<close>

type_synonym inline_keyboard = "(jsstring \<times> jsstring) list list"

text \<open>The requests \<^verbatim>\<open>callTelegram\<close> posts, with the payload fields the source sets.\<close>

datatype tg_call =
    sendMessage
      (to_chat: int) (text_of: jsstring) (parse_mode: "jsstring option")
      (reply_markup: "inline_keyboard option") (reply_to_message_id: "int option")
  | copyMessage
      (to_chat: int) (from_chat_id: int) (copied_id: int)
      (caption_of: "jsstring option") (parse_mode: "jsstring option")
  | answerCallbackQuery (callback_query_id: jsstring) (text_of: jsstring)
  | editMessageText (to_chat: int) (edited_id: int) (text_of: jsstring)

text \<open>
  \<^verbatim>\<open>fetch\<close> followed by \<^verbatim>\<open>response.json()\<close> either rejects (no connection, a body
  that is not JSON) with an error message, or yields the platform's answer. An answer
  with \<^verbatim>\<open>ok: false\<close> has no \<^verbatim>\<open>result\<close>; the \<^verbatim>\<open>result\<close> of a delivery carries the
  \<^verbatim>\<open>message_id\<close> given to the new message.
\<close>

datatype fetched = Rejects jsstring | Answers "int option"

text \<open>The chat completion: the request fails, or the answer has a
  \<^verbatim>\<open>choices[0].message.content\<close> or lacks it.\<close>

datatype completion = Fails | Content "jsstring option"

text \<open>The platform may answer a request depending on all the requests made before.\<close>

record outside =
  telegram :: "tg_call list \<Rightarrow> tg_call \<Rightarrow> fetched"
  siliconflow :: "jsstring \<Rightarrow> jsstring \<Rightarrow> completion"
  Date_now :: int

text \<open>\<open>ADMIN_USER_ID\<close> is the integer \<^verbatim>\<open>parseInt\<close> reads from the configured string.\<close>

record env =
  SILICONFLOW_API_KEY :: "jsstring option"
  ADMIN_USER_ID :: int
  TELEGRAM_WEBHOOK_SECRET :: "jsstring option"

section \<open>Effects\<close>

text \<open>
  The state one unit of work runs on: the store, the requests posted to the platform so
  far, the invocations of \<^verbatim>\<open>translateText\<close> and the requests it posted to the
  translation service (both as text and target language), and what was written with
  \<^verbatim>\<open>console.error\<close>.
\<close>

record world =
  DB :: db
  calls :: "tg_call list"
  translate_invocations :: "(jsstring \<times> jsstring) list"
  translate_requests :: "(jsstring \<times> jsstring) list"
  console :: "error list"

text \<open>An asynchronous function: it returns a value or throws, and changes the state.\<close>

type_synonym 'a async = "world \<Rightarrow> (error + 'a) \<times> world"

definition return :: "'a \<Rightarrow> 'a async" where
  "return x w = (Inr x, w)"

definition throw :: "error \<Rightarrow> 'a async" where
  "throw e w = (Inl e, w)"

definition await :: "'a async \<Rightarrow> ('a \<Rightarrow> 'b async) \<Rightarrow> 'b async" where
  "await m f w = (case m w of (Inl e, w') \<Rightarrow> (Inl e, w') | (Inr x, w') \<Rightarrow> f x w')"

definition try_catch :: "'a async \<Rightarrow> (error \<Rightarrow> 'a async) \<Rightarrow> 'a async" where
  "try_catch m h w = (case m w of (Inl e, w') \<Rightarrow> h e w' | (Inr x, w') \<Rightarrow> (Inr x, w'))"

definition query :: "(db \<Rightarrow> 'a) \<Rightarrow> 'a async" where
  "query f w = (Inr (f (DB w)), w)"

definition run :: "(db \<Rightarrow> db) \<Rightarrow> unit async" where
  "run f w = (Inr (), w\<lparr>DB := f (DB w)\<rparr>)"

text \<open>A statement on the store that may throw; the store is changed only if it does not.\<close>

definition attempt :: "(db \<Rightarrow> error + 'a \<times> db) \<Rightarrow> 'a async" where
  "attempt f w =
     (case f (DB w) of
        Inl err \<Rightarrow> (Inl err, w)
      | Inr (x, d) \<Rightarrow> (Inr x, w\<lparr>DB := d\<rparr>))"

definition callTelegram :: "outside \<Rightarrow> tg_call \<Rightarrow> int option async" where
  "callTelegram out c w =
     (case telegram out (calls w) c of
        Rejects m \<Rightarrow> (Inl (FetchError m), w\<lparr>calls := calls w @ [c]\<rparr>)
      | Answers r \<Rightarrow> (Inr r, w\<lparr>calls := calls w @ [c]\<rparr>))"

definition translateText :: "env \<Rightarrow> outside \<Rightarrow> jsstring \<Rightarrow> jsstring \<Rightarrow> jsstring async" where
  "translateText e out txt targetLang w =
     (let w1 = w\<lparr>translate_invocations := translate_invocations w @ [(txt, targetLang)]\<rparr>
      in if \<not> truthy (SILICONFLOW_API_KEY e) then (Inr txt, w1)
         else
           (let w2 = w1\<lparr>translate_requests := translate_requests w1 @ [(txt, targetLang)]\<rparr>
            in case siliconflow out txt targetLang of
                 Fails \<Rightarrow>
                   (Inr txt, w2\<lparr>console := console w2 @ [FetchError (ascii ''Translation failed:'')]\<rparr>)
               | Content None \<Rightarrow> (Inr txt, w2)
               | Content (Some c) \<Rightarrow> (Inr (if c = [] then txt else c), w2)))"


section \<open>Business logic\<close>

definition I_am_Human :: inline_keyboard where
  "I_am_Human = [ [(0x2705 # ascii '' I am Human'', ascii ''verify_human'')] ]"

definition Verify :: inline_keyboard where
  "Verify = [ [(0x2705 # ascii '' Verify'', ascii ''verify_human'')] ]"

text \<open>The loop \<^verbatim>\<open>for (i = 0; i < buttons.length; i += 2)\<close> pushing
  \<^verbatim>\<open>buttons.slice(i, i + 2)\<close>.\<close>

fun rows_of_2 :: "'a list \<Rightarrow> 'a list list" where
  "rows_of_2 buttons =
     (if buttons = [] then [] else take 2 buttons # rows_of_2 (drop 2 buttons))"

declare rows_of_2.simps [simp del]

definition language_buttons :: "(jsstring \<times> jsstring) list" where
  "language_buttons = map (\<lambda>(code, name). (name, ascii ''lang_'' @ code)) SUPPORTED_LANGS"

definition sendLanguageSelection :: "outside \<Rightarrow> int \<Rightarrow> unit async" where
  "sendLanguageSelection out chatId =
     await (callTelegram out
        (sendMessage chatId
           (ascii ''Please select your language / '' @ [0x8BF7, 0x9009, 0x62E9, 0x8BED, 0x8A00]
              @ ascii '':'')
           None (Some (rows_of_2 language_buttons)) None))
       (\<lambda>_. return ())"

definition handleStart :: "outside \<Rightarrow> message \<Rightarrow> unit async" where
  "handleStart out message =
     (let user = msg_from message in
      await (attempt (\<lambda>d. upsertUser d user (Date_now out)))
        (\<lambda>dbUser. await (query (\<lambda>d. getUser d (from_id user)))
          (\<lambda>userData. case userData of
             None \<Rightarrow> throw (TypeError (ascii ''Cannot read properties of null''))
           | Some userData \<Rightarrow>
               if \<not> (is_verified userData \<noteq> 0) then
                 await (callTelegram out
                    (sendMessage (from_id user)
                       (ascii ''Please verify you are human by clicking the button below.'')
                       None (Some I_am_Human) None))
                   (\<lambda>_. return ())
               else if \<not> truthy (language userData) then
                 sendLanguageSelection out (from_id user)
               else
                 await (callTelegram out
                    (sendMessage (from_id user)
                       (ascii ''Welcome! You can send me messages and I will forward them to the admin.'')
                       None None None))
                   (\<lambda>_. return ()))))"

text \<open>The text a template literal prints for \<^verbatim>\<open>data.split('_')[1]\<close>.\<close>

fun template :: "jsstring option \<Rightarrow> jsstring" where
  "template None = ascii ''undefined''"
| "template (Some s) = s"

text \<open>\<^verbatim>\<open>SUPPORTED_LANGS[langCode] || langCode\<close> inside the template literal; the key
  \<^verbatim>\<open>undefined\<close> is the property name \<^verbatim>\<open>"undefined"\<close>.\<close>

definition language_name :: "jsstring option \<Rightarrow> jsstring" where
  "language_name langCode =
     or_else (get_property SUPPORTED_LANGS (template langCode)) (template langCode)"

definition read_message_id :: "int option \<Rightarrow> int async" where
  "read_message_id m =
     (case m of
        None \<Rightarrow> throw (TypeError (ascii ''Cannot read properties of undefined''))
      | Some i \<Rightarrow> return i)"

definition handleCallback :: "outside \<Rightarrow> callback_query \<Rightarrow> unit async" where
  "handleCallback out callback =
     (let data = cb_data callback; user = cb_from callback in
      if data = Some (ascii ''verify_human'') then
        await (run (\<lambda>d. set_is_verified d (from_id user)))
          (\<lambda>_. await (callTelegram out
                   (answerCallbackQuery (cb_id callback) (ascii ''Verified!'')))
            (\<lambda>_. await (read_message_id (cb_message callback))
              (\<lambda>mid. await (callTelegram out
                   (editMessageText (from_id user) mid
                      (0x2705 # ascii '' Verified successfully. Now please select your language.'')))
                (\<lambda>_. sendLanguageSelection out (from_id user)))))
      else
        (case data of
           None \<Rightarrow> throw (TypeError (ascii ''Cannot read properties of undefined''))
         | Some data \<Rightarrow>
             if startsWith data (ascii ''lang_'') then
               (let langCode = at_index (split underscore data) 1 in
                await (run (\<lambda>d. set_language d langCode (from_id user)))
                  (\<lambda>_. await (callTelegram out
                           (answerCallbackQuery (cb_id callback)
                              (ascii ''Language set to '' @ template langCode)))
                    (\<lambda>_. await (read_message_id (cb_message callback))
                      (\<lambda>mid. await (callTelegram out
                           (editMessageText (from_id user) mid
                              (0x2705 # ascii '' Language set to '' @ language_name langCode
                                 @ ascii ''. You can now send messages.'')))
                        (\<lambda>_. return ())))))
             else return ()))"


definition HTML :: "jsstring option" where
  "HTML = Some (ascii ''HTML'')"

definition header :: "tg_user \<Rightarrow> jsstring option \<Rightarrow> jsstring" where
  "header user lang =
     [0xD83D, 0xDCE9] @ ascii '' <b>New Message</b>'' @ [newline]
       @ ascii ''From: <a href='' @ [0x22] @ ascii ''tg://user?id='' @ String_of_int (from_id user)
       @ [0x22] @ ascii ''>'' @ from_first_name user @ ascii ''</a> (''
       @ String_of_int (from_id user) @ ascii '')'' @ [newline]
       @ ascii ''Lang: '' @ template lang"

definition isMedia :: "message \<Rightarrow> bool" where
  "isMedia message =
     (photo message \<or> video message \<or> document message \<or> voice message \<or> audio message
        \<or> animation message)"

text \<open>\<^verbatim>\<open>s || ''\<close>.\<close>

fun or_empty :: "jsstring option \<Rightarrow> jsstring" where
  "or_empty None = []"
| "or_empty (Some s) = s"

text \<open>The three branches of the relay in \<^verbatim>\<open>handlePrivateMessage\<close>; each returns
  \<^verbatim>\<open>res.result\<close> of the delivery that carries the guest's content.\<close>

definition relay_text :: "env \<Rightarrow> outside \<Rightarrow> message \<Rightarrow> upserted \<Rightarrow> int option async" where
  "relay_text e out message dbUser =
     (let originalText = or_empty (msg_text message);
          finalText = header (msg_from message) (dbUser_language dbUser)
                        @ [newline, newline] @ originalText
      in await
           (if dbUser_language dbUser \<noteq> Some (ascii ''zh'') then
              await (translateText e out originalText (ascii ''Chinese''))
                (\<lambda>translated. return
                   (finalText @ [newline, newline] @ ascii ''<b>Translation:</b>'' @ [newline]
                      @ translated))
            else return finalText)
           (\<lambda>finalText. callTelegram out
              (sendMessage (ADMIN_USER_ID e) finalText HTML None None)))"

definition relay_media :: "env \<Rightarrow> outside \<Rightarrow> message \<Rightarrow> upserted \<Rightarrow> int option async" where
  "relay_media e out message dbUser =
     (let newCaption = header (msg_from message) (dbUser_language dbUser)
                         @ [newline, newline] @ or_empty (caption message);
          newCaption = (if length newCaption > 1024
                        then substring0 newCaption 1021 @ ascii ''...''
                        else newCaption)
      in callTelegram out
           (copyMessage (ADMIN_USER_ID e) (from_id (msg_from message)) (message_id message)
              (Some newCaption) HTML))"

definition relay_other :: "env \<Rightarrow> outside \<Rightarrow> message \<Rightarrow> upserted \<Rightarrow> int option async" where
  "relay_other e out message dbUser =
     await (callTelegram out
        (sendMessage (ADMIN_USER_ID e)
           (header (msg_from message) (dbUser_language dbUser)) HTML None None))
       (\<lambda>_. callTelegram out
          (copyMessage (ADMIN_USER_ID e) (from_id (msg_from message)) (message_id message)
             None None))"

definition admin_reply :: "env \<Rightarrow> outside \<Rightarrow> message \<Rightarrow> unit async" where
  "admin_reply e out message =
     (case reply_to_message message of
        None \<Rightarrow> return ()
      | Some replied \<Rightarrow>
          await (query (\<lambda>d. getOriginalSender d replied))
            (\<lambda>original. case original of
               Some (original_user_id, original_guest_message_id) \<Rightarrow>
                 try_catch
                   (await (callTelegram out
                      (copyMessage original_user_id (chat_id message) (message_id message)
                         None None))
                     (\<lambda>_. await (callTelegram out
                        (sendMessage (ADMIN_USER_ID e) (0x2705 # ascii '' Reply sent.'')
                           None None (Some (message_id message))))
                       (\<lambda>_. return ())))
                   (\<lambda>err. await (callTelegram out
                      (sendMessage (ADMIN_USER_ID e)
                         (0x274C # ascii '' Failed to send: '' @ message_of err)
                         None None (Some (message_id message))))
                     (\<lambda>_. return ()))
             | None \<Rightarrow>
                 await (callTelegram out
                    (sendMessage (ADMIN_USER_ID e)
                       ([0x26A0, 0xFE0F]
                          @ ascii '' Could not find original sender for this message (maybe too old).'')
                       None None (Some (message_id message))))
                   (\<lambda>_. return ())))"

definition handlePrivateMessage :: "env \<Rightarrow> outside \<Rightarrow> message \<Rightarrow> unit async" where
  "handlePrivateMessage e out message =
     (let user = msg_from message in
      if from_id user = ADMIN_USER_ID e then admin_reply e out message
      else
        await (attempt (\<lambda>d. upsertUser d user (Date_now out)))
          (\<lambda>dbUser.
             if dbUser_is_blocked dbUser then return ()
             else if \<not> dbUser_is_verified dbUser then
               await (callTelegram out
                  (sendMessage (from_id user) (ascii ''Please verify you are human first.'')
                     None (Some Verify) None))
                 (\<lambda>_. return ())
             else if \<not> truthy (dbUser_language dbUser) then
               sendLanguageSelection out (from_id user)
             else
               await
                 (if truthy (msg_text message) then relay_text e out message dbUser
                  else if isMedia message then relay_media e out message dbUser
                  else relay_other e out message dbUser)
                 (\<lambda>sentMsg. case sentMsg of
                    None \<Rightarrow> return ()
                  | Some sent_message_id \<Rightarrow>
                      run (\<lambda>d. saveMessageMapping d sent_message_id (from_id user)
                                 (message_id message) (Date_now out)))))"

section \<open>The webhook route\<close>

datatype response = Unauthorized_403 | OK_200

definition dispatch :: "env \<Rightarrow> outside \<Rightarrow> update \<Rightarrow> unit async" where
  "dispatch e out u =
     (case u of
        Message m \<Rightarrow>
          if truthy (msg_text m) \<and> startsWith (or_empty (msg_text m)) (ascii ''/start'')
          then handleStart out m
          else handlePrivateMessage e out m
      | Callback c \<Rightarrow> handleCallback out c
      | Neither \<Rightarrow> return ())"

definition webhook :: "env \<Rightarrow> outside \<Rightarrow> jsstring option \<Rightarrow> update \<Rightarrow> world \<Rightarrow> response \<times> world" where
  "webhook e out secret u w =
     (if truthy (TELEGRAM_WEBHOOK_SECRET e) \<and> secret \<noteq> TELEGRAM_WEBHOOK_SECRET e
      then (Unauthorized_403, w)
      else
        (case try_catch (dispatch e out u)
                (\<lambda>err w'. (Inr (), w'\<lparr>console := console w' @ [err]\<rparr>)) w of
           (_, w') \<Rightarrow> (OK_200, w')))"

section \<open>Vocabulary of the statements and example scenarios\<close>

text \<open>The part of a string before its first underscore (all of it when it has none).\<close>

definition up_to_underscore :: "jsstring \<Rightarrow> jsstring" where
  "up_to_underscore s = takeWhile (\<lambda>c. c \<noteq> underscore) s"

text \<open>A guest whose message is relayed: not the admin, with a username (without one
  \<^verbatim>\<open>upsertUser\<close> throws and the relay is not reached), and with a row that is not
  blocked, is verified and has a language.\<close>

definition ready_guest :: "env \<Rightarrow> world \<Rightarrow> message \<Rightarrow> user_row \<Rightarrow> bool" where
  "ready_guest e w m r \<longleftrightarrow>
     from_id (msg_from m) \<noteq> ADMIN_USER_ID e
     \<and> from_username (msg_from m) \<noteq> None
     \<and> users (DB w) (from_id (msg_from m)) = Some r
     \<and> is_blocked r = 0 \<and> is_verified r \<noteq> 0 \<and> truthy (language r)"

text \<open>The store after \<^verbatim>\<open>upsertUser\<close> has written a sender's names over those of the
  row \<open>r\<close>, if they differ.\<close>

definition refreshed :: "db \<Rightarrow> tg_user \<Rightarrow> user_row \<Rightarrow> db" where
  "refreshed d u r =
     (if username r \<noteq> from_username u \<or> first_name r \<noteq> from_first_name u
      then d\<lparr>users := (users d)(from_id u \<mapsto>
             r\<lparr>username := from_username u, first_name := from_first_name u\<rparr>)\<rparr>
      else d)"

text \<open>The keys of the stored mappings.\<close>

definition relay_ids :: "db \<Rightarrow> int list" where
  "relay_ids d = map admin_message_id (messages d)"

text \<open>Ann is guest 7; the admin is user 1; no translation credentials are configured.\<close>

definition Ann :: tg_user where
  "Ann = \<lparr>from_id = 7, from_username = Some (ascii ''ann''), from_first_name = ascii ''Ann''\<rparr>"

definition Admin :: tg_user where
  "Admin = \<lparr>from_id = 1, from_username = Some (ascii ''boss''), from_first_name = ascii ''Boss''\<rparr>"

definition config :: env where
  "config = \<lparr>SILICONFLOW_API_KEY = None, ADMIN_USER_ID = 1, TELEGRAM_WEBHOOK_SECRET = None\<rparr>"

definition Ann_row :: "int \<Rightarrow> int \<Rightarrow> jsstring option \<Rightarrow> user_row" where
  "Ann_row verified blocked lang =
     \<lparr>username = Some (ascii ''ann''), first_name = ascii ''Ann'', is_verified = verified,
      language = lang, is_blocked = blocked, blocked_at = None, created_at = 0\<rparr>"

definition world_with :: "user_row \<Rightarrow> message_row list \<Rightarrow> world" where
  "world_with r ms =
     \<lparr>DB = \<lparr>users = [7 \<mapsto> r], messages = ms\<rparr>, calls = [],
      translate_invocations = [], translate_requests = [], console = []\<rparr>"

text \<open>A platform that delivers every request and numbers the new messages from 100 on,
  and one that answers every request with an error response.\<close>

definition delivering :: outside where
  "delivering =
     \<lparr>telegram = (\<lambda>history c. Answers (Some (100 + int (length history)))),
      siliconflow = (\<lambda>txt lang. Content (Some (ascii ''[zh] '' @ txt))),
      Date_now = 0\<rparr>"

definition refusing :: outside where
  "refusing =
     \<lparr>telegram = (\<lambda>history c. Answers None),
      siliconflow = (\<lambda>txt lang. Fails),
      Date_now = 0\<rparr>"

definition pressed :: "jsstring \<Rightarrow> callback_query" where
  "pressed data =
     \<lparr>cb_id = ascii ''q1'', cb_from = Ann, cb_data = Some data, cb_message = Some 40\<rparr>"

text \<open>The request that carries the guest's content to the admin: the formatted text for
  a text message, the copy of the guest's message otherwise.\<close>

fun payload_delivery :: "env \<Rightarrow> message \<Rightarrow> tg_call \<Rightarrow> bool" where
  "payload_delivery e m (sendMessage c t p k r) = (truthy (msg_text m) \<and> c = ADMIN_USER_ID e)"
| "payload_delivery e m (copyMessage c f i cap p) =
     (\<not> truthy (msg_text m) \<and> c = ADMIN_USER_ID e \<and> f = from_id (msg_from m)
        \<and> i = message_id m)"
| "payload_delivery e m (answerCallbackQuery q t) = False"
| "payload_delivery e m (editMessageText c i t) = False"

text \<open>The chat a request addresses; the answer to a callback query addresses none.\<close>

fun addressee :: "tg_call \<Rightarrow> int option" where
  "addressee (sendMessage c t p k r) = Some c"
| "addressee (copyMessage c f i cap p) = Some c"
| "addressee (answerCallbackQuery q t) = None"
| "addressee (editMessageText c i t) = Some c"

text \<open>The mapping row \<^verbatim>\<open>saveMessageMapping\<close> writes for a relayed message.\<close>

definition mapping_row :: "outside \<Rightarrow> world \<Rightarrow> message \<Rightarrow> int \<Rightarrow> message_row" where
  "mapping_row out w m k =
     \<lparr>row_id = Suc (length (messages (DB w))), admin_message_id = k,
      user_id = from_id (msg_from m), guest_message_id = message_id m,
      row_created_at = Date_now out\<rparr>"

text \<open>
  What every branch of the relay does on a state \<open>v\<close>: it leaves the store alone and
  posts requests of which the last one goes to the admin; it returns what the platform
  answered to that one, or throws if that one was rejected; and a last request that was
  answered is the payload delivery.
\<close>

definition delivery_outcome ::
  "env \<Rightarrow> outside \<Rightarrow> message \<Rightarrow> world \<Rightarrow> (error + int option) \<times> world \<Rightarrow> bool" where
  "delivery_outcome e out m v res \<longleftrightarrow>
     DB (snd res) = DB v \<and>
     (\<exists>cs c. calls (snd res) = calls v @ cs @ [c] \<and> to_chat c = ADMIN_USER_ID e
        \<and> fst res = (case telegram out (calls v @ cs) c of
                       Rejects msg \<Rightarrow> Inl (FetchError msg) | Answers k \<Rightarrow> Inr k)
        \<and> (\<forall>k. telegram out (calls v @ cs) c = Answers k \<longrightarrow> payload_delivery e m c))"

text \<open>Ann, verified and with a language, in a store without mappings; her messages.\<close>

definition Ann_speaks :: "jsstring \<Rightarrow> world" where
  "Ann_speaks lang = world_with (Ann_row 1 0 (Some lang)) []"

definition from_Ann :: "int \<Rightarrow> message" where
  "from_Ann i =
     \<lparr>msg_from = Ann, chat_id = 7, message_id = i, reply_to_message = None, msg_text = None,
      caption = None, photo = False, video = False, document = False, voice = False,
      audio = False, animation = False\<rparr>"

definition sticker :: message where
  "sticker = from_Ann 12"

definition Hello :: message where
  "Hello = (from_Ann 10)\<lparr>msg_text := Some (ascii ''Hello'')\<rparr>"

definition photo_captioned :: "jsstring \<Rightarrow> message" where
  "photo_captioned c = (from_Ann 11)\<lparr>photo := True, caption := Some c\<rparr>"

text \<open>A platform that answers every \<^verbatim>\<open>sendMessage\<close> with an error response and delivers
  every other request as message 77.\<close>

definition sendMessage_refused :: outside where
  "sendMessage_refused =
     \<lparr>telegram = (\<lambda>history c. case c of
                    sendMessage to t p k r \<Rightarrow> Answers None
                  | copyMessage to f i cap p \<Rightarrow> Answers (Some 77)
                  | answerCallbackQuery q t \<Rightarrow> Answers (Some 77)
                  | editMessageText to i t \<Rightarrow> Answers (Some 77)),
      siliconflow = (\<lambda>txt lang. Fails),
      Date_now = 0\<rparr>"

text \<open>A platform that gives every delivered message the id 5, and one that answers every
  \<^verbatim>\<open>copyMessage\<close> with an error response (the addressee has blocked the bot) and
  delivers every other request as message 300.\<close>

definition repeating :: outside where
  "repeating =
     \<lparr>telegram = (\<lambda>history c. Answers (Some 5)),
      siliconflow = (\<lambda>txt lang. Fails),
      Date_now = 0\<rparr>"

definition copyMessage_refused :: outside where
  "copyMessage_refused =
     \<lparr>telegram = (\<lambda>history c. case c of
                    sendMessage to t p k r \<Rightarrow> Answers (Some 300)
                  | copyMessage to f i cap p \<Rightarrow> Answers None
                  | answerCallbackQuery q t \<Rightarrow> Answers (Some 300)
                  | editMessageText to i t \<Rightarrow> Answers (Some 300)),
      siliconflow = (\<lambda>txt lang. Fails),
      Date_now = 0\<rparr>"

text \<open>Ann blocked, though verified and with a language; her \<^verbatim>\<open>/start\<close>.\<close>

definition Ann_blocked :: world where
  "Ann_blocked = world_with (Ann_row 1 1 (Some (ascii ''en''))) []"

definition start :: message where
  "start = (from_Ann 9)\<lparr>msg_text := Some (ascii ''/start'')\<rparr>"

text \<open>The admin's reply, message 55 of the admin's chat, to the relayed message 101, in a
  store that maps 101 to Ann's message 12.\<close>

definition reply_to_101 :: message where
  "reply_to_101 =
     \<lparr>msg_from = Admin, chat_id = 1, message_id = 55, reply_to_message = Some 101,
      msg_text = Some (ascii ''Hi Ann''), caption = None, photo = False, video = False,
      document = False, voice = False, audio = False, animation = False\<rparr>"

definition Ann_relayed :: world where
  "Ann_relayed =
     world_with (Ann_row 1 0 (Some (ascii ''en'')))
       [\<lparr>row_id = 1, admin_message_id = 101, user_id = 7, guest_message_id = 12,
         row_created_at = 0\<rparr>]"

definition no_mappings :: db where
  "no_mappings = \<lparr>users = Map.empty, messages = []\<rparr>"

section \<open>Strings and the store: basic facts\<close>

lemma split_first_segment:
  "sep \<notin> set x \<Longrightarrow> split sep (x @ sep # rest) = x # split sep rest"
  by (induction x) (auto split: list.splits)

lemma split_nonempty: "split sep s \<noteq> []"
  by (induction s) (auto split: list.splits)

lemma hd_split: "hd (split sep s) = takeWhile (\<lambda>c. c \<noteq> sep) s"
  by (induction s) (auto split: list.splits simp: split_nonempty)

lemma ascii_lang: "ascii ''lang_'' = ascii ''lang'' @ [underscore]"
  by (simp add: ascii_def underscore_def)

lemma underscore_notin_lang: "underscore \<notin> set (ascii ''lang'')"
  by (simp add: ascii_def underscore_def)

lemma langCode_of:
  "at_index (split underscore (ascii ''lang_'' @ code)) (Suc 0) = Some (up_to_underscore code)"
proof -
  have "split underscore (ascii ''lang_'' @ code) = ascii ''lang'' # split underscore code"
    using split_first_segment [OF underscore_notin_lang, of code] by (simp add: ascii_lang)
  then show ?thesis
    using split_nonempty [of underscore code] hd_split [of underscore code]
    by (cases "split underscore code") (auto simp: at_index_def up_to_underscore_def)
qed

lemma up_to_underscore_append:
  "underscore \<notin> set x \<Longrightarrow> up_to_underscore (x @ underscore # y) = x"
  by (induction x) (auto simp: up_to_underscore_def)

lemma up_to_underscore_id: "underscore \<notin> set x \<Longrightarrow> up_to_underscore x = x"
  by (induction x) (auto simp: up_to_underscore_def)

lemma lang_not_verify: "ascii ''lang_'' @ code \<noteq> ascii ''verify_human''"
  by (simp add: ascii_def)

lemma startsWith_append: "startsWith (p @ s) p"
  by (simp add: startsWith_def)

lemmas async_defs = await_def return_def throw_def run_def query_def try_catch_def
  attempt_def callTelegram_def read_message_id_def

section \<open>Onboarding callbacks\<close>

lemma handleCallback_lang_DB:
  assumes "cb_data cb = Some (ascii ''lang_'' @ code)"
  shows "DB (snd (handleCallback out cb w))
         = set_language (DB w) (Some (up_to_underscore code)) (from_id (cb_from cb))"
  using assms
  by (simp add: handleCallback_def Let_def lang_not_verify startsWith_append langCode_of
      async_defs split: fetched.splits option.splits)

lemma handleCallback_lang_calls:
  assumes "cb_data cb = Some (ascii ''lang_'' @ code)"
    and "cb_message cb = Some mid"
    and "telegram out (calls w)
           (answerCallbackQuery (cb_id cb)
              (ascii ''Language set to '' @ up_to_underscore code)) = Answers a"
  shows "calls (snd (handleCallback out cb w))
         = calls w @
           [answerCallbackQuery (cb_id cb) (ascii ''Language set to '' @ up_to_underscore code),
            editMessageText (from_id (cb_from cb)) mid
              (0x2705 # ascii '' Language set to ''
                 @ language_name (Some (up_to_underscore code))
                 @ ascii ''. You can now send messages.'')]"
  using assms
  by (simp add: handleCallback_def Let_def lang_not_verify startsWith_append langCode_of
      async_defs split: fetched.splits option.splits)

lemma handleCallback_verify_DB:
  assumes "cb_data cb = Some (ascii ''verify_human'')"
  shows "DB (snd (handleCallback out cb w)) = set_is_verified (DB w) (from_id (cb_from cb))"
  using assms
  by (simp add: handleCallback_def Let_def sendLanguageSelection_def
      async_defs split: fetched.splits option.splits)

lemma language_name_plain:
  assumes "s \<notin> fst ` set Object_prototype"
  shows "language_name (Some s) = (case map_of SUPPORTED_LANGS s of Some name \<Rightarrow> name | None \<Rightarrow> s)"
proof (cases "map_of SUPPORTED_LANGS s")
  case None
  moreover have "map_of Object_prototype s = None"
    using assms by (simp add: map_of_eq_None_iff)
  ultimately show ?thesis
    by (simp add: language_name_def get_property_def)
next
  case (Some name)
  then have "(s, name) \<in> set SUPPORTED_LANGS"
    by (rule map_of_SomeD)
  then have "name \<noteq> []"
    by (auto simp: SUPPORTED_LANGS_def ascii_def)
  with Some show ?thesis
    by (simp add: language_name_def get_property_def)
qed

text \<open>
  C10. The language code is the second segment of the action string split at
  underscores: for an action string \<^verbatim>\<open>lang_X_Y\<close>, where \<open>X\<close> has no underscore, the
  language stored for the user is \<open>X\<close>, not the full code \<^verbatim>\<open>X_Y\<close>. This holds
  whatever the platform answers to the acknowledgments that follow.
\<close>

theorem language_code_is_second_segment:
  assumes "underscore \<notin> set X"
    and "cb_data cb = Some (ascii ''lang_'' @ X @ underscore # Y)"
    and "users (DB w) (from_id (cb_from cb)) = Some r"
  shows "users (DB (snd (handleCallback out cb w))) (from_id (cb_from cb))
           = Some (r\<lparr>language := Some X\<rparr>)
         \<and> X \<noteq> X @ underscore # Y"
  using assms
  by (simp add: handleCallback_lang_DB up_to_underscore_append set_language_def)

theorem language_code_is_second_segment_witness:
  "underscore \<notin> set (ascii ''zh'')
   \<and> cb_data (pressed (ascii ''lang_zh_TW'')) = Some (ascii ''lang_zh_TW'')
   \<and> users (DB (world_with (Ann_row 1 0 None) [])) 7 = Some (Ann_row 1 0 None)
   \<and> users (DB (snd (handleCallback delivering (pressed (ascii ''lang_zh_TW''))
                       (world_with (Ann_row 1 0 None) [])))) 7
       = Some (Ann_row 1 0 (Some (ascii ''zh'')))"
  using language_code_is_second_segment
    [of "ascii ''zh''" "pressed (ascii ''lang_zh_TW'')" "ascii ''TW''"
        "world_with (Ann_row 1 0 None) []" "Ann_row 1 0 None" delivering]
  by (simp add: pressed_def Ann_def world_with_def Ann_row_def ascii_def underscore_def)

text \<open>
  C9, as the code has it. For a callback whose action string is \<^verbatim>\<open>lang_\<close> followed by
  \<open>code\<close>, the language stored for the user is the part of \<open>code\<close> before its first
  underscore, which is \<open>code\<close> itself when it has no underscore, in or out of the
  supported table. When the platform accepts the first acknowledgment and the stored code
  is not the name of a property of \<^verbatim>\<open>Object.prototype\<close>, the acknowledgments are the
  callback answer with the raw stored code and the edited message with the display name
  of a supported code and the raw stored code otherwise.
\<close>

theorem select_language_stores_first_segment:
  assumes "cb_data cb = Some (ascii ''lang_'' @ code)"
    and "users (DB w) (from_id (cb_from cb)) = Some r"
    and "cb_message cb = Some mid"
  shows "users (DB (snd (handleCallback out cb w))) (from_id (cb_from cb))
           = Some (r\<lparr>language := Some (up_to_underscore code)\<rparr>)
         \<and> (underscore \<notin> set code \<longrightarrow> up_to_underscore code = code)
         \<and> (telegram out (calls w)
               (answerCallbackQuery (cb_id cb)
                  (ascii ''Language set to '' @ up_to_underscore code)) = Answers a
              \<and> up_to_underscore code \<notin> fst ` set Object_prototype
            \<longrightarrow> calls (snd (handleCallback out cb w))
                = calls w @
                  [answerCallbackQuery (cb_id cb)
                     (ascii ''Language set to '' @ up_to_underscore code),
                   editMessageText (from_id (cb_from cb)) mid
                     (0x2705 # ascii '' Language set to ''
                        @ (case map_of SUPPORTED_LANGS (up_to_underscore code) of
                             Some name \<Rightarrow> name
                           | None \<Rightarrow> up_to_underscore code)
                        @ ascii ''. You can now send messages.'')])"
  using assms
  by (simp add: handleCallback_lang_DB handleCallback_lang_calls language_name_plain
      up_to_underscore_id set_language_def)

theorem select_language_stores_first_segment_witness:
  "cb_data (pressed (ascii ''lang_en'')) = Some (ascii ''lang_'' @ ascii ''en'')
   \<and> users (DB (world_with (Ann_row 1 0 None) [])) 7 = Some (Ann_row 1 0 None)
   \<and> cb_message (pressed (ascii ''lang_en'')) = Some 40
   \<and> underscore \<notin> set (ascii ''en'')
   \<and> telegram delivering [] (answerCallbackQuery (ascii ''q1'') (ascii ''Language set to en''))
       = Answers (Some 100)
   \<and> ascii ''en'' \<notin> fst ` set Object_prototype
   \<and> users (DB (snd (handleCallback delivering (pressed (ascii ''lang_en''))
                       (world_with (Ann_row 1 0 None) [])))) 7
       = Some (Ann_row 1 0 (Some (ascii ''en'')))
   \<and> calls (snd (handleCallback delivering (pressed (ascii ''lang_en''))
                       (world_with (Ann_row 1 0 None) [])))
       = [answerCallbackQuery (ascii ''q1'') (ascii ''Language set to en''),
          editMessageText 7 40
            (0x2705 # ascii '' Language set to English. You can now send messages.'')]"
  using select_language_stores_first_segment
    [of "pressed (ascii ''lang_en'')" "ascii ''en''" "world_with (Ann_row 1 0 None) []"
        "Ann_row 1 0 None" 40 delivering "Some 100"]
  by (simp add: pressed_def Ann_def world_with_def Ann_row_def ascii_def underscore_def
      delivering_def up_to_underscore_def SUPPORTED_LANGS_def Object_prototype_def)

text \<open>
  C9 as stated fails: the action string \<^verbatim>\<open>lang_zh_TW\<close> carries the code \<^verbatim>\<open>zh_TW\<close>
  and \<^verbatim>\<open>zh\<close> is stored; and the code \<^verbatim>\<open>constructor\<close>, which is not in the
  supported table, is acknowledged with the text of a built-in function instead of the
  raw code.
\<close>

theorem select_language_not_verbatim:
  "users (DB (snd (handleCallback delivering (pressed (ascii ''lang_zh_TW''))
                     (world_with (Ann_row 1 0 None) [])))) 7
     = Some (Ann_row 1 0 (Some (ascii ''zh'')))
   \<and> ascii ''zh'' \<noteq> ascii ''zh_TW''
   \<and> map_of SUPPORTED_LANGS (ascii ''constructor'') = None
   \<and> calls (snd (handleCallback delivering (pressed (ascii ''lang_constructor''))
                     (world_with (Ann_row 1 0 None) [])))
       = [answerCallbackQuery (ascii ''q1'') (ascii ''Language set to constructor''),
          editMessageText 7 40
            (0x2705 # ascii '' Language set to function Object() { [native code] }. You can now send messages.'')]"
  by (simp add: handleCallback_def Let_def startsWith_def at_index_def async_defs
      pressed_def Ann_def world_with_def Ann_row_def ascii_def underscore_def delivering_def
      set_language_def language_name_def get_property_def SUPPORTED_LANGS_def
      Object_prototype_def)

text \<open>Each further \<^verbatim>\<open>verify_human\<close> writes the same flag again.\<close>

lemma verify_human_DB_funpow:
  assumes "cb_data cb = Some (ascii ''verify_human'')"
  shows "DB (((\<lambda>w. snd (handleCallback out cb w)) ^^ Suc n) w)
         = set_is_verified (DB w) (from_id (cb_from cb))"
  by (induction n) (simp_all add: handleCallback_verify_DB [OF assms] set_is_verified_def split: option.splits)

text \<open>
  C7. After \<^verbatim>\<open>verify_human\<close> has been processed any number \<open>n > 0\<close> of times for a
  user with a row, whatever the platform answered, the store is the one before with
  \<open>is_verified = 1\<close> in the user's row and nothing else changed (the language and
  every other row are kept); when the user was verified already, the store is unchanged.
\<close>

theorem verify_human_idempotent:
  assumes "cb_data cb = Some (ascii ''verify_human'')"
    and "users (DB w) (from_id (cb_from cb)) = Some r"
    and "0 < n"
  shows "DB (((\<lambda>w. snd (handleCallback out cb w)) ^^ n) w)
           = (DB w)\<lparr>users := (users (DB w))(from_id (cb_from cb) \<mapsto> r\<lparr>is_verified := 1\<rparr>)\<rparr>
         \<and> (is_verified r = 1 \<longrightarrow>
              DB (((\<lambda>w. snd (handleCallback out cb w)) ^^ n) w) = DB w)"
proof -
  let ?run = "DB (((\<lambda>w. snd (handleCallback out cb w)) ^^ n) w)"
  obtain k where n: "n = Suc k"
    using assms(3) by (cases n) auto
  have run: "?run = (DB w)\<lparr>users := (users (DB w))(from_id (cb_from cb) \<mapsto> r\<lparr>is_verified := 1\<rparr>)\<rparr>"
    unfolding n verify_human_DB_funpow [OF assms(1)]
    using assms(2) by (simp add: set_is_verified_def)
  have "?run = DB w" if "is_verified r = 1"
  proof -
    have "r\<lparr>is_verified := 1\<rparr> = r"
      using that by (cases r) simp
    moreover have "(users (DB w))(from_id (cb_from cb) \<mapsto> r) = users (DB w)"
      using assms(2) by (rule map_upd_triv)
    ultimately show ?thesis
      by (simp add: run)
  qed
  with run show ?thesis
    by blast
qed

theorem verify_human_idempotent_witness:
  "cb_data (pressed (ascii ''verify_human'')) = Some (ascii ''verify_human'')
   \<and> users (DB (world_with (Ann_row 0 0 None) [])) 7 = Some (Ann_row 0 0 None)
   \<and> users (DB (world_with (Ann_row 1 0 (Some (ascii ''en''))) [])) 7
       = Some (Ann_row 1 0 (Some (ascii ''en'')))
   \<and> is_verified (Ann_row 1 0 (Some (ascii ''en''))) = 1
   \<and> (0::nat) < 2
   \<and> DB (((\<lambda>w. snd (handleCallback delivering (pressed (ascii ''verify_human'')) w)) ^^ 2)
            (world_with (Ann_row 0 0 None) []))
       = \<lparr>users = [7 \<mapsto> Ann_row 1 0 None], messages = []\<rparr>
   \<and> DB (((\<lambda>w. snd (handleCallback refusing (pressed (ascii ''verify_human'')) w)) ^^ 2)
            (world_with (Ann_row 1 0 (Some (ascii ''en''))) []))
       = DB (world_with (Ann_row 1 0 (Some (ascii ''en''))) [])"
  using verify_human_idempotent
    [of "pressed (ascii ''verify_human'')" "world_with (Ann_row 0 0 None) []"
        "Ann_row 0 0 None" 2 delivering]
    verify_human_idempotent
    [of "pressed (ascii ''verify_human'')" "world_with (Ann_row 1 0 (Some (ascii ''en''))) []"
        "Ann_row 1 0 (Some (ascii ''en''))" 2 refusing]
  by (simp add: pressed_def Ann_def world_with_def Ann_row_def)

section \<open>The relay\<close>

text \<open>For a sender with a username and a row, \<^verbatim>\<open>upsertUser\<close> returns the row and leaves
  every mapping and every column but the two names as they are.\<close>

lemma upsertUser_existing:
  assumes "users d (from_id u) = Some r" and "from_username u \<noteq> None"
  shows "upsertUser d u now = Inr (Existing r, refreshed d u r)"
    and "messages (refreshed d u r) = messages d"
  using assms
  by (auto simp: upsertUser_def getUser_def bind_username_def username_differs_def
      refreshed_def)

text \<open>For a sender without a username it throws and changes nothing.\<close>

lemma upsertUser_no_username:
  assumes "from_username u = None"
  shows "\<exists>err. upsertUser d u now = Inl err"
  using assms
  by (simp add: upsertUser_def getUser_def bind_username_def username_differs_def
      split: option.splits)

lemma handlePrivateMessage_no_username:
  assumes "from_id (msg_from m) \<noteq> ADMIN_USER_ID e" and "from_username (msg_from m) = None"
  shows "\<exists>err. handlePrivateMessage e out m w = (Inl err, w)"
proof -
  obtain err where "upsertUser (DB w) (msg_from m) (Date_now out) = Inl err"
    using upsertUser_no_username [OF assms(2)] by blast
  with assms(1) show ?thesis
    by (simp add: handlePrivateMessage_def Let_def await_def attempt_def)
qed

lemma handlePrivateMessage_ready:
  assumes "ready_guest e w m r"
  shows "handlePrivateMessage e out m w
         = await
             (if truthy (msg_text m) then relay_text e out m (Existing r)
              else if isMedia m then relay_media e out m (Existing r)
              else relay_other e out m (Existing r))
             (\<lambda>sentMsg. case sentMsg of
                None \<Rightarrow> return ()
              | Some sent_message_id \<Rightarrow>
                  run (\<lambda>d. saveMessageMapping d sent_message_id (from_id (msg_from m))
                             (message_id m) (Date_now out)))
             (w\<lparr>DB := refreshed (DB w) (msg_from m) r\<rparr>)"
proof -
  have "upsertUser (DB w) (msg_from m) (Date_now out)
        = Inr (Existing r, refreshed (DB w) (msg_from m) r)"
    using assms by (intro upsertUser_existing(1)) (simp_all add: ready_guest_def)
  with assms show ?thesis
    by (simp add: handlePrivateMessage_def ready_guest_def Let_def await_def attempt_def)
qed

lemma callTelegram_run:
  "callTelegram out c v
   = ((case telegram out (calls v) c of Rejects msg \<Rightarrow> Inl (FetchError msg) | Answers k \<Rightarrow> Inr k),
      v\<lparr>calls := calls v @ [c]\<rparr>)"
  by (simp add: callTelegram_def split: fetched.splits)

lemma translateText_run:
  "\<exists>t' v'. translateText e out t l v = (Inr t', v') \<and> DB v' = DB v \<and> calls v' = calls v"
  by (simp add: translateText_def Let_def split: completion.splits option.splits)

lemma relay_text_ok:
  assumes "truthy (msg_text m)"
  shows "delivery_outcome e out m v (relay_text e out m u v)"
proof (cases "dbUser_language u \<noteq> Some (ascii ''zh'')")
  case True
  obtain t' v' where "translateText e out (or_empty (msg_text m)) (ascii ''Chinese'') v = (Inr t', v')"
    "DB v' = DB v" "calls v' = calls v"
    using translateText_run by blast
  with True assms show ?thesis
    unfolding delivery_outcome_def relay_text_def Let_def await_def return_def callTelegram_run
    by (auto intro!: exI [of _ "[]"])
next
  case False
  with assms show ?thesis
    unfolding delivery_outcome_def relay_text_def Let_def await_def return_def callTelegram_run
    by (auto intro!: exI [of _ "[]"])
qed

lemma relay_media_ok:
  assumes "\<not> truthy (msg_text m)"
  shows "delivery_outcome e out m v (relay_media e out m u v)"
  using assms
  unfolding delivery_outcome_def relay_media_def Let_def callTelegram_run
  by (auto intro!: exI [of _ "[]"])

lemma relay_other_ok:
  "\<not> truthy (msg_text m) \<Longrightarrow> delivery_outcome e out m v (relay_other e out m u v)"
proof -
  assume t: "\<not> truthy (msg_text m)"
  let ?h = "sendMessage (ADMIN_USER_ID e) (header (msg_from m) (dbUser_language u)) HTML None None"
  show ?thesis
  proof (cases "telegram out (calls v) ?h")
    case (Rejects msg)
    then show ?thesis
      unfolding delivery_outcome_def relay_other_def await_def callTelegram_run
      by (auto intro!: exI [of _ "[]"])
  next
    case (Answers k)
    then show ?thesis
      unfolding delivery_outcome_def relay_other_def await_def callTelegram_run
      using t by (auto intro!: exI [of _ "[?h]"])
  qed
qed

lemma relay_outcome:
  assumes "ready_guest e w m r"
  shows "calls (snd (handlePrivateMessage e out m w)) \<noteq> []
     \<and> to_chat (last (calls (snd (handlePrivateMessage e out m w)))) = ADMIN_USER_ID e
     \<and> (case telegram out (butlast (calls (snd (handlePrivateMessage e out m w))))
                (last (calls (snd (handlePrivateMessage e out m w)))) of
          Rejects msg \<Rightarrow>
            messages (DB (snd (handlePrivateMessage e out m w))) = messages (DB w)
        | Answers None \<Rightarrow>
            payload_delivery e m (last (calls (snd (handlePrivateMessage e out m w))))
            \<and> messages (DB (snd (handlePrivateMessage e out m w))) = messages (DB w)
        | Answers (Some k) \<Rightarrow>
            payload_delivery e m (last (calls (snd (handlePrivateMessage e out m w))))
            \<and> messages (DB (snd (handlePrivateMessage e out m w)))
                = messages (DB w) @ [mapping_row out w m k])"
proof -
  let ?v = "w\<lparr>DB := refreshed (DB w) (msg_from m) r\<rparr>"
  let ?deliver = "if truthy (msg_text m) then relay_text e out m (Existing r)
              else if isMedia m then relay_media e out m (Existing r)
              else relay_other e out m (Existing r)"
  have user: "users (DB w) (from_id (msg_from m)) = Some r"
    and name: "from_username (msg_from m) \<noteq> None"
    using assms by (simp_all add: ready_guest_def)
  have msgs: "messages (DB ?v) = messages (DB w)"
    using upsertUser_existing(2) [OF user name] by simp
  have ok: "delivery_outcome e out m ?v (?deliver ?v)"
    by (simp add: relay_text_ok relay_media_ok relay_other_ok)
  obtain res v' where run: "?deliver ?v = (res, v')"
    by (cases "?deliver ?v")
  from ok obtain cs c where
    db: "DB v' = DB ?v" and
    calls: "calls v' = calls w @ cs @ [c]" and
    chat: "to_chat c = ADMIN_USER_ID e" and
    res: "res = (case telegram out (calls w @ cs) c of
                   Rejects msg \<Rightarrow> Inl (FetchError msg) | Answers k \<Rightarrow> Inr k)" and
    payload: "\<And>k. telegram out (calls w @ cs) c = Answers k \<Longrightarrow> payload_delivery e m c"
    unfolding delivery_outcome_def run by auto
  have "calls w @ cs @ [c] = (calls w @ cs) @ [c]"
    by simp
  then have last: "last (calls v') = c" and butlast: "butlast (calls v') = calls w @ cs"
    unfolding calls by (simp_all only: last_snoc butlast_snoc)
  show ?thesis
  proof (cases "telegram out (calls w @ cs) c")
    case (Rejects msg)
    then show ?thesis
      unfolding handlePrivateMessage_ready [OF assms] await_def run
      using res db msgs chat calls last butlast by simp
  next
    case (Answers k)
    note p = payload [OF Answers]
    show ?thesis
    proof (cases k)
      case None
      then show ?thesis
        unfolding handlePrivateMessage_ready [OF assms] await_def run
        using Answers res db msgs chat calls last butlast p by (simp add: return_def)
    next
      case (Some i)
      then show ?thesis
        unfolding handlePrivateMessage_ready [OF assms] await_def run
        using Answers res db msgs chat calls last butlast p
        by (simp add: run_def saveMessageMapping_def mapping_row_def)
    qed
  qed
qed

text \<open>Ann's sticker on a platform that delivers, and on one that answers with errors.\<close>

lemmas example_defs = config_def Ann_speaks_def world_with_def Ann_row_def from_Ann_def Ann_def
  sticker_def Hello_def photo_captioned_def

lemma sticker_run:
  "snd (handlePrivateMessage config delivering sticker (Ann_speaks (ascii ''en'')))
   = (Ann_speaks (ascii ''en''))
       \<lparr>DB := \<lparr>users = [7 \<mapsto> Ann_row 1 0 (Some (ascii ''en''))],
               messages = [\<lparr>row_id = 1, admin_message_id = 101, user_id = 7,
                            guest_message_id = 12, row_created_at = 0\<rparr>]\<rparr>,
        calls := [sendMessage 1 (header Ann (Some (ascii ''en''))) HTML None None,
                  copyMessage 1 7 12 None None]\<rparr>"
  by (simp add: handlePrivateMessage_def Let_def example_defs upsertUser_def getUser_def
      bind_username_def username_differs_def
      truthy_def isMedia_def relay_other_def async_defs delivering_def saveMessageMapping_def
      ascii_def)

lemma sticker_refused_run:
  "snd (handlePrivateMessage config refusing sticker (Ann_speaks (ascii ''en'')))
   = (Ann_speaks (ascii ''en''))
       \<lparr>calls := [sendMessage 1 (header Ann (Some (ascii ''en''))) HTML None None,
                  copyMessage 1 7 12 None None]\<rparr>"
  by (simp add: handlePrivateMessage_def Let_def example_defs upsertUser_def getUser_def
      bind_username_def username_differs_def
      truthy_def isMedia_def relay_other_def async_defs refusing_def ascii_def)

text \<open>
  C4, as the code has it. When a ready guest's message is relayed, at least one request is
  posted and the last request posted goes to the admin. A mapping is recorded only if
  that last request is the payload delivery and the platform answered it with the id of
  the new message, which is the key of the mapping; if the last request posted (the
  payload delivery, or the request at which the run stopped) was rejected or answered
  without a result, no mapping is recorded.
\<close>

theorem mapping_only_after_payload_delivery:
  assumes "ready_guest e w m r"
  shows "calls (snd (handlePrivateMessage e out m w)) \<noteq> []
     \<and> to_chat (last (calls (snd (handlePrivateMessage e out m w)))) = ADMIN_USER_ID e
     \<and> (messages (DB (snd (handlePrivateMessage e out m w))) \<noteq> messages (DB w) \<longrightarrow>
          (\<exists>k. telegram out (butlast (calls (snd (handlePrivateMessage e out m w))))
                  (last (calls (snd (handlePrivateMessage e out m w)))) = Answers (Some k)
              \<and> payload_delivery e m (last (calls (snd (handlePrivateMessage e out m w))))
              \<and> messages (DB (snd (handlePrivateMessage e out m w)))
                  = messages (DB w) @ [mapping_row out w m k]))
     \<and> ((\<forall>k. telegram out (butlast (calls (snd (handlePrivateMessage e out m w))))
                 (last (calls (snd (handlePrivateMessage e out m w)))) \<noteq> Answers (Some k)) \<longrightarrow>
          messages (DB (snd (handlePrivateMessage e out m w))) = messages (DB w))"
  using relay_outcome [OF assms, of out]
  by (auto split: fetched.splits option.splits)

theorem mapping_only_after_payload_delivery_witness:
  "ready_guest config (Ann_speaks (ascii ''en'')) sticker (Ann_row 1 0 (Some (ascii ''en'')))
   \<and> messages (DB (snd (handlePrivateMessage config delivering sticker (Ann_speaks (ascii ''en'')))))
       \<noteq> messages (DB (Ann_speaks (ascii ''en'')))
   \<and> telegram delivering
        (butlast (calls (snd (handlePrivateMessage config delivering sticker (Ann_speaks (ascii ''en''))))))
        (last (calls (snd (handlePrivateMessage config delivering sticker (Ann_speaks (ascii ''en''))))))
       = Answers (Some 101)
   \<and> messages (DB (snd (handlePrivateMessage config delivering sticker (Ann_speaks (ascii ''en'')))))
       = [mapping_row delivering (Ann_speaks (ascii ''en'')) sticker 101]
   \<and> (\<forall>k. telegram refusing
        (butlast (calls (snd (handlePrivateMessage config refusing sticker (Ann_speaks (ascii ''en''))))))
        (last (calls (snd (handlePrivateMessage config refusing sticker (Ann_speaks (ascii ''en''))))))
       \<noteq> Answers (Some k))
   \<and> messages (DB (snd (handlePrivateMessage config refusing sticker (Ann_speaks (ascii ''en''))))) = []"
proof -
  have ready: "ready_guest config (Ann_speaks (ascii ''en'')) sticker (Ann_row 1 0 (Some (ascii ''en'')))"
    by (simp add: ready_guest_def example_defs truthy_def ascii_def)
  show ?thesis
    using ready
      mapping_only_after_payload_delivery [OF ready, of delivering]
      mapping_only_after_payload_delivery [OF ready, of refusing]
    unfolding sticker_run sticker_refused_run
    by (simp add: mapping_row_def delivering_def refusing_def Ann_speaks_def world_with_def)
qed

text \<open>
  C4 as stated fails: a delivery to the admin may fail at the header step and the mapping
  is recorded all the same. The platform refuses the header of a sticker with an error
  response; the sticker is copied, and its mapping is stored.
\<close>

theorem header_refused_mapping_recorded:
  "telegram sendMessage_refused (calls (Ann_speaks (ascii ''en'')))
      (sendMessage (ADMIN_USER_ID config) (header Ann (Some (ascii ''en''))) HTML None None)
     = Answers None
   \<and> calls (snd (handlePrivateMessage config sendMessage_refused sticker (Ann_speaks (ascii ''en''))))
       = [sendMessage (ADMIN_USER_ID config) (header Ann (Some (ascii ''en''))) HTML None None,
          copyMessage (ADMIN_USER_ID config) 7 12 None None]
   \<and> messages (DB (snd (handlePrivateMessage config sendMessage_refused sticker
                          (Ann_speaks (ascii ''en'')))))
       = [\<lparr>row_id = 1, admin_message_id = 77, user_id = 7, guest_message_id = 12,
           row_created_at = 0\<rparr>]"
  by (simp add: handlePrivateMessage_def Let_def example_defs upsertUser_def getUser_def
      bind_username_def username_differs_def
      truthy_def isMedia_def relay_other_def async_defs sendMessage_refused_def
      saveMessageMapping_def ascii_def)

subsection \<open>Media captions\<close>

lemma relay_media_calls:
  assumes "ready_guest e w m r" and "\<not> truthy (msg_text m)" and "isMedia m"
  shows "calls (snd (handlePrivateMessage e out m w))
         = calls w @
           [copyMessage (ADMIN_USER_ID e) (from_id (msg_from m)) (message_id m)
              (Some (if length (header (msg_from m) (language r) @ [newline, newline]
                                  @ or_empty (caption m)) > 1024
                     then substring0 (header (msg_from m) (language r) @ [newline, newline]
                                        @ or_empty (caption m)) 1021 @ ascii ''...''
                     else header (msg_from m) (language r) @ [newline, newline]
                            @ or_empty (caption m)))
              HTML]"
  unfolding handlePrivateMessage_ready [OF assms(1)]
  using assms(2,3)
  by (simp add: relay_media_def Let_def async_defs split: fetched.splits option.splits)

lemma truncated:
  assumes "1024 < length c" and "length z = 3"
  shows "length (take 1021 c @ z) = 1024"
    and "drop (length (take 1021 c @ z) - 3) (take 1021 c @ z) = z"
    and "take 1021 (take 1021 c @ z) = take 1021 c"
proof -
  have "length (take 1021 c) = 1021"
    using assms(1) by simp
  then show "length (take 1021 c @ z) = 1024"
    and "drop (length (take 1021 c @ z) - 3) (take 1021 c @ z) = z"
    and "take 1021 (take 1021 c @ z) = take 1021 c"
    using assms(2) by simp_all
qed

text \<open>
  C6. A ready guest's media message is delivered to the admin as one copy of the message
  with a caption \<open>d\<close>. Let \<open>c\<close> be the caption the relay builds: the header, a blank
  line and the original caption (empty when there is none). If \<open>c\<close> has more than 1024
  code units, \<open>d\<close> has at most 1024, ends in \<^verbatim>\<open>...\<close> and agrees with \<open>c\<close> on its
  first 1021 code units; otherwise \<open>d\<close> is \<open>c\<close>.
\<close>

theorem media_caption_bound:
  assumes "ready_guest e w m r" and "\<not> truthy (msg_text m)" and "isMedia m"
  shows "\<exists>d. calls (snd (handlePrivateMessage e out m w))
               = calls w @
                 [copyMessage (ADMIN_USER_ID e) (from_id (msg_from m)) (message_id m) (Some d) HTML]
          \<and> (1024 < length (header (msg_from m) (language r) @ [newline, newline]
                              @ or_empty (caption m)) \<longrightarrow>
                length d \<le> 1024 \<and> drop (length d - 3) d = ascii ''...''
                \<and> take 1021 d = take 1021 (header (msg_from m) (language r) @ [newline, newline]
                                              @ or_empty (caption m)))
          \<and> (length (header (msg_from m) (language r) @ [newline, newline]
                        @ or_empty (caption m)) \<le> 1024 \<longrightarrow>
                d = header (msg_from m) (language r) @ [newline, newline] @ or_empty (caption m))"
proof -
  let ?c = "header (msg_from m) (language r) @ [newline, newline] @ or_empty (caption m)"
  let ?d = "if length ?c > 1024 then substring0 ?c 1021 @ ascii ''...'' else ?c"
  have "length ?d \<le> 1024 \<and> drop (length ?d - 3) ?d = ascii ''...'' \<and> take 1021 ?d = take 1021 ?c"
    if "1024 < length ?c"
    using that truncated [of ?c "ascii ''...''"] by (simp add: substring0_def ascii_def)
  moreover have "?d = ?c" if "length ?c \<le> 1024"
    using that by simp
  ultimately show ?thesis
    using relay_media_calls [OF assms, of out] by blast
qed

lemma length_header_Ann: "length (header Ann (Some (ascii ''en''))) = 73"
  by (simp add: header_def Ann_def String_of_int_def digits.simps ascii_def)

theorem media_caption_bound_witness:
  "ready_guest config (Ann_speaks (ascii ''en'')) (photo_captioned (replicate 1100 97))
     (Ann_row 1 0 (Some (ascii ''en'')))
   \<and> \<not> truthy (msg_text (photo_captioned (replicate 1100 97)))
   \<and> isMedia (photo_captioned (replicate 1100 97))
   \<and> 1024 < length (header Ann (Some (ascii ''en'')) @ [newline, newline] @ replicate 1100 97)
   \<and> (\<exists>d. calls (snd (handlePrivateMessage config delivering (photo_captioned (replicate 1100 97))
                         (Ann_speaks (ascii ''en''))))
             = [copyMessage 1 7 11 (Some d) HTML]
          \<and> length d \<le> 1024 \<and> drop (length d - 3) d = ascii ''...'')
   \<and> ready_guest config (Ann_speaks (ascii ''en'')) (photo_captioned (ascii ''sunset''))
     (Ann_row 1 0 (Some (ascii ''en'')))
   \<and> length (header Ann (Some (ascii ''en'')) @ [newline, newline] @ ascii ''sunset'') \<le> 1024
   \<and> calls (snd (handlePrivateMessage config delivering (photo_captioned (ascii ''sunset''))
                         (Ann_speaks (ascii ''en''))))
       = [copyMessage 1 7 11
            (Some (header Ann (Some (ascii ''en'')) @ [newline, newline] @ ascii ''sunset'')) HTML]"
proof -
  have ready: "ready_guest config (Ann_speaks (ascii ''en'')) (photo_captioned c)
     (Ann_row 1 0 (Some (ascii ''en'')))" for c
    by (simp add: ready_guest_def example_defs truthy_def ascii_def)
  have media: "\<not> truthy (msg_text (photo_captioned c))" "isMedia (photo_captioned c)" for c
    by (simp_all add: example_defs truthy_def isMedia_def)
  have facts: "msg_from (photo_captioned c) = Ann" "caption (photo_captioned c) = Some c"
    "message_id (photo_captioned c) = 11" "language (Ann_row 1 0 (Some (ascii ''en''))) = Some (ascii ''en'')"
    "calls (Ann_speaks (ascii ''en'')) = []" "ADMIN_USER_ID config = 1" "from_id Ann = 7" for c
    by (simp_all add: example_defs)
  have short: "length (ascii ''sunset'') = 6"
    by (simp add: ascii_def)
  show ?thesis
    using ready media
      media_caption_bound [OF ready [of "replicate 1100 97"] media, of delivering]
      media_caption_bound [OF ready [of "ascii ''sunset''"] media, of delivering]
    by (auto simp: facts length_header_Ann short)
qed

subsection \<open>Text messages and translation\<close>

lemma relay_text_effects:
  assumes "ready_guest e w m r" and "msg_text m = Some t" and "t \<noteq> []"
  shows "translate_invocations (snd (handlePrivateMessage e out m w))
           = translate_invocations w
               @ (if language r \<noteq> Some (ascii ''zh'') then [(t, ascii ''Chinese'')] else [])"
    and "translate_requests (snd (handlePrivateMessage e out m w))
           = translate_requests w
               @ (if language r \<noteq> Some (ascii ''zh'') \<and> truthy (SILICONFLOW_API_KEY e)
                  then [(t, ascii ''Chinese'')] else [])"
    and "\<not> truthy (SILICONFLOW_API_KEY e) \<Longrightarrow>
         calls (snd (handlePrivateMessage e out m w))
           = calls w @
             [sendMessage (ADMIN_USER_ID e)
                (header (msg_from m) (language r) @ [newline, newline] @ t
                   @ (if language r \<noteq> Some (ascii ''zh'')
                      then [newline, newline] @ ascii ''<b>Translation:</b>'' @ [newline] @ t
                      else []))
                HTML None None]"
  unfolding handlePrivateMessage_ready [OF assms(1)]
  using assms(2,3)
  by (simp_all add: relay_text_def translateText_def truthy_def Let_def async_defs
      split: fetched.splits option.splits completion.splits)

text \<open>
  C1, as the code has it. When a ready guest's text message is relayed,
  \<^verbatim>\<open>translateText\<close> is invoked, once, with the original text and the target
  \<^verbatim>\<open>Chinese\<close>, if and only if the sender's stored language is not \<^verbatim>\<open>zh\<close>; it posts
  a request to the translation service only if credentials are configured as well.
  Without credentials the message delivered to the admin is the header, a blank line and
  the original text when the language is \<^verbatim>\<open>zh\<close>, and otherwise the same followed by
  a translation block that repeats the original text.
\<close>

theorem translation_gating:
  assumes "ready_guest e w m r" and "msg_text m = Some t" and "t \<noteq> []"
  shows "(translate_invocations (snd (handlePrivateMessage e out m w)) \<noteq> translate_invocations w
            \<longleftrightarrow> language r \<noteq> Some (ascii ''zh''))
     \<and> translate_invocations (snd (handlePrivateMessage e out m w))
           = translate_invocations w
               @ (if language r \<noteq> Some (ascii ''zh'') then [(t, ascii ''Chinese'')] else [])
     \<and> translate_requests (snd (handlePrivateMessage e out m w))
           = translate_requests w
               @ (if language r \<noteq> Some (ascii ''zh'') \<and> truthy (SILICONFLOW_API_KEY e)
                  then [(t, ascii ''Chinese'')] else [])
     \<and> (\<not> truthy (SILICONFLOW_API_KEY e) \<longrightarrow>
          calls (snd (handlePrivateMessage e out m w))
              = calls w @
                [sendMessage (ADMIN_USER_ID e)
                   (header (msg_from m) (language r) @ [newline, newline] @ t
                      @ (if language r \<noteq> Some (ascii ''zh'')
                         then [newline, newline] @ ascii ''<b>Translation:</b>'' @ [newline] @ t
                         else []))
                   HTML None None])"
  using relay_text_effects [OF assms, of out] by simp

theorem translation_gating_witness:
  "ready_guest config (Ann_speaks (ascii ''en'')) Hello (Ann_row 1 0 (Some (ascii ''en'')))
   \<and> ready_guest config (Ann_speaks (ascii ''zh'')) Hello (Ann_row 1 0 (Some (ascii ''zh'')))
   \<and> msg_text Hello = Some (ascii ''Hello'') \<and> ascii ''Hello'' \<noteq> []
   \<and> \<not> truthy (SILICONFLOW_API_KEY config)
   \<and> translate_invocations (snd (handlePrivateMessage config delivering Hello (Ann_speaks (ascii ''en''))))
       = [(ascii ''Hello'', ascii ''Chinese'')]
   \<and> translate_invocations (snd (handlePrivateMessage config delivering Hello (Ann_speaks (ascii ''zh''))))
       = []
   \<and> calls (snd (handlePrivateMessage config delivering Hello (Ann_speaks (ascii ''zh''))))
       = [sendMessage 1 (header Ann (Some (ascii ''zh'')) @ [newline, newline] @ ascii ''Hello'')
            HTML None None]"
proof -
  have ready: "ready_guest config (Ann_speaks l) Hello (Ann_row 1 0 (Some l))" if "l \<noteq> []" for l
    using that by (simp add: ready_guest_def example_defs truthy_def)
  have en: "ascii ''en'' \<noteq> []" and zh: "ascii ''zh'' \<noteq> []" and en_zh: "ascii ''en'' \<noteq> ascii ''zh''"
    by (simp_all add: ascii_def)
  have hello: "msg_text Hello = Some (ascii ''Hello'')" "ascii ''Hello'' \<noteq> []"
    by (simp_all add: example_defs ascii_def)
  have facts: "msg_from Hello = Ann" "language (Ann_row 1 0 l) = l"
    "calls (Ann_speaks k) = []" "translate_invocations (Ann_speaks k) = []"
    "ADMIN_USER_ID config = 1" "\<not> truthy (SILICONFLOW_API_KEY config)" for l k
    by (simp_all add: example_defs truthy_def)
  show ?thesis
    using ready [OF en] ready [OF zh] hello
      translation_gating [OF ready [OF en] hello, of delivering]
      translation_gating [OF ready [OF zh] hello, of delivering]
    by (simp add: facts en_zh)
qed

text \<open>
  C1 as stated fails: with no credentials configured, the message relayed for a guest
  whose language is \<^verbatim>\<open>en\<close> is not the header plus the original text; a translation
  block holding the original text once more follows.
\<close>

theorem unset_translation_adds_block:
  "SILICONFLOW_API_KEY config = None
   \<and> calls (snd (handlePrivateMessage config delivering Hello (Ann_speaks (ascii ''en''))))
       = [sendMessage 1
            (header Ann (Some (ascii ''en'')) @ [newline, newline] @ ascii ''Hello''
               @ [newline, newline] @ ascii ''<b>Translation:</b>'' @ [newline] @ ascii ''Hello'')
            HTML None None]
   \<and> header Ann (Some (ascii ''en'')) @ [newline, newline] @ ascii ''Hello''
        @ [newline, newline] @ ascii ''<b>Translation:</b>'' @ [newline] @ ascii ''Hello''
       \<noteq> header Ann (Some (ascii ''en'')) @ [newline, newline] @ ascii ''Hello''"
  by (simp add: handlePrivateMessage_def Let_def example_defs upsertUser_def getUser_def
      bind_username_def username_differs_def
      truthy_def relay_text_def translateText_def async_defs delivering_def
      saveMessageMapping_def ascii_def)

section \<open>Correlation\<close>

lemma find_append_rows:
  "find P (xs @ ys) = (case find P xs of Some x \<Rightarrow> Some x | None \<Rightarrow> find P ys)"
  by (induction xs) simp_all

lemma getOriginalSender_unrecorded:
  "k \<notin> set (relay_ids d) \<Longrightarrow> getOriginalSender d k = None"
  by (auto simp: getOriginalSender_def relay_ids_def find_None_iff split: option.splits)

lemma getOriginalSender_recorded:
  "getOriginalSender d k = Some p \<Longrightarrow> k \<in> set (relay_ids d)"
  using getOriginalSender_unrecorded [of k d] by auto

lemma getOriginalSender_save:
  "getOriginalSender (saveMessageMapping d k' u g t) k
   = (case getOriginalSender d k of
        Some p \<Rightarrow> Some p
      | None \<Rightarrow> if k = k' then Some (u, g) else None)"
  by (simp add: saveMessageMapping_def getOriginalSender_def find_append_rows
      split: option.splits)

text \<open>
  C2, as the code has it. When a ready guest's message is relayed and the platform answers
  the payload delivery with the id \<open>k\<close>, and no mapping with the key \<open>k\<close> was stored
  before, then resolving \<open>k\<close> gives the guest's user id and the id of the guest's
  message, and goes on doing so after any later mapping is recorded; and resolving an id
  that is not the key of a stored mapping gives nothing.
\<close>

theorem correlation_round_trip:
  assumes "ready_guest e w m r"
    and "telegram out (butlast (calls (snd (handlePrivateMessage e out m w))))
           (last (calls (snd (handlePrivateMessage e out m w)))) = Answers (Some k)"
    and "k \<notin> set (relay_ids (DB w))"
  shows "getOriginalSender (DB (snd (handlePrivateMessage e out m w))) k
           = Some (from_id (msg_from m), message_id m)
     \<and> getOriginalSender
          (saveMessageMapping (DB (snd (handlePrivateMessage e out m w))) k' u' g' t') k
           = Some (from_id (msg_from m), message_id m)
     \<and> (j \<notin> set (relay_ids (DB (snd (handlePrivateMessage e out m w)))) \<longrightarrow>
          getOriginalSender (DB (snd (handlePrivateMessage e out m w))) j = None)"
proof -
  let ?d = "DB (snd (handlePrivateMessage e out m w))"
  have rows: "messages ?d = messages (DB w) @ [mapping_row out w m k]"
    using relay_outcome [OF assms(1), of out] assms(2) by simp
  have "find (\<lambda>r. admin_message_id r = k) (messages (DB w)) = None"
    using assms(3) by (auto simp: relay_ids_def find_None_iff)
  then have here: "getOriginalSender ?d k = Some (from_id (msg_from m), message_id m)"
    unfolding getOriginalSender_def rows
    by (simp add: find_append_rows mapping_row_def)
  then show ?thesis
    by (simp add: getOriginalSender_save getOriginalSender_unrecorded)
qed

theorem correlation_round_trip_witness:
  "ready_guest config (Ann_speaks (ascii ''en'')) sticker (Ann_row 1 0 (Some (ascii ''en'')))
   \<and> telegram delivering
        (butlast (calls (snd (handlePrivateMessage config delivering sticker (Ann_speaks (ascii ''en''))))))
        (last (calls (snd (handlePrivateMessage config delivering sticker (Ann_speaks (ascii ''en''))))))
       = Answers (Some 101)
   \<and> 101 \<notin> set (relay_ids (DB (Ann_speaks (ascii ''en''))))
   \<and> getOriginalSender
        (DB (snd (handlePrivateMessage config delivering sticker (Ann_speaks (ascii ''en''))))) 101
       = Some (7, 12)
   \<and> 102 \<notin> set (relay_ids
        (DB (snd (handlePrivateMessage config delivering sticker (Ann_speaks (ascii ''en''))))))
   \<and> getOriginalSender
        (DB (snd (handlePrivateMessage config delivering sticker (Ann_speaks (ascii ''en''))))) 102
       = None"
proof -
  have ready: "ready_guest config (Ann_speaks (ascii ''en'')) sticker (Ann_row 1 0 (Some (ascii ''en'')))"
    by (simp add: ready_guest_def example_defs truthy_def ascii_def)
  have answered: "telegram delivering
        (butlast (calls (snd (handlePrivateMessage config delivering sticker (Ann_speaks (ascii ''en''))))))
        (last (calls (snd (handlePrivateMessage config delivering sticker (Ann_speaks (ascii ''en''))))))
       = Answers (Some 101)"
    unfolding sticker_run by (simp add: delivering_def)
  have fresh: "101 \<notin> set (relay_ids (DB (Ann_speaks (ascii ''en''))))"
    by (simp add: relay_ids_def Ann_speaks_def world_with_def)
  have other: "102 \<notin> set (relay_ids
        (DB (snd (handlePrivateMessage config delivering sticker (Ann_speaks (ascii ''en''))))))"
    unfolding sticker_run by (simp add: relay_ids_def)
  show ?thesis
    using ready answered fresh other
      correlation_round_trip [OF ready answered fresh, of 102]
    by (simp add: sticker_def from_Ann_def Ann_def)
qed

text \<open>
  C2 as stated fails when a key is recorded twice: the platform gives two relayed messages
  of Ann (12 and 14) the same id 5; both mappings are stored, and resolving 5 gives
  message 12, not the pair recorded for message 14.
\<close>

theorem same_key_resolves_to_first:
  "messages (DB (snd (handlePrivateMessage config repeating (from_Ann 14)
                   (snd (handlePrivateMessage config repeating (from_Ann 12)
                      (Ann_speaks (ascii ''en'')))))))
     = [\<lparr>row_id = 1, admin_message_id = 5, user_id = 7, guest_message_id = 12, row_created_at = 0\<rparr>,
        \<lparr>row_id = 2, admin_message_id = 5, user_id = 7, guest_message_id = 14, row_created_at = 0\<rparr>]
   \<and> getOriginalSender
        (DB (snd (handlePrivateMessage config repeating (from_Ann 14)
                   (snd (handlePrivateMessage config repeating (from_Ann 12)
                      (Ann_speaks (ascii ''en''))))))) 5
       = Some (7, 12)
   \<and> getOriginalSender
        (DB (snd (handlePrivateMessage config repeating (from_Ann 14)
                   (snd (handlePrivateMessage config repeating (from_Ann 12)
                      (Ann_speaks (ascii ''en''))))))) 5
       \<noteq> Some (7, 14)"
  by (simp add: handlePrivateMessage_def Let_def example_defs upsertUser_def getUser_def
      bind_username_def username_differs_def
      truthy_def isMedia_def relay_other_def async_defs repeating_def saveMessageMapping_def
      getOriginalSender_def ascii_def)

text \<open>
  C5, as the code has it. Recording a mapping always appends one row and keeps the rows
  stored before, whether or not its key is stored already: there is no duplicate-key
  failure. The stored keys are pairwise distinct afterwards exactly when they were before
  and the new key is not among them.
\<close>

theorem record_appends:
  "length (messages (saveMessageMapping d k u g t)) = Suc (length (messages d))
   \<and> take (length (messages d)) (messages (saveMessageMapping d k u g t)) = messages d
   \<and> relay_ids (saveMessageMapping d k u g t) = relay_ids d @ [k]
   \<and> (distinct (relay_ids (saveMessageMapping d k u g t))
        \<longleftrightarrow> distinct (relay_ids d) \<and> k \<notin> set (relay_ids d))"
  by (auto simp: saveMessageMapping_def relay_ids_def)

text \<open>
  C5 as stated fails: recording the key 5 a second time succeeds, and two stored mappings
  share the key.
\<close>

theorem record_twice_same_key:
  "relay_ids (saveMessageMapping (saveMessageMapping no_mappings 5 7 10 0) 5 8 20 0) = [5, 5]
   \<and> map guest_message_id
        (messages (saveMessageMapping (saveMessageMapping no_mappings 5 7 10 0) 5 8 20 0))
       = [10, 20]"
  by (simp add: saveMessageMapping_def relay_ids_def no_mappings_def)

section \<open>Blocked users\<close>

text \<open>In \<^verbatim>\<open>handlePrivateMessage\<close> a blocked guest gets no answer and nothing is
  relayed.\<close>

lemma blocked_guest_not_relayed:
  assumes "from_id (msg_from m) \<noteq> ADMIN_USER_ID e"
    and "users (DB w) (from_id (msg_from m)) = Some r"
    and "is_blocked r \<noteq> 0"
  shows "calls (snd (handlePrivateMessage e out m w)) = calls w"
    and "messages (DB (snd (handlePrivateMessage e out m w))) = messages (DB w)"
  using assms
  by (simp_all add: handlePrivateMessage_def Let_def await_def attempt_def upsertUser_def
      getUser_def bind_username_def username_differs_def return_def split: option.splits)

text \<open>\<^verbatim>\<open>handleStart\<close> and \<^verbatim>\<open>handleCallback\<close> address the sender only, so what they
  send reaches the admin only when the admin is the sender.\<close>

lemma onboarding_addresses_sender:
  shows "c \<in> set (calls (snd (handleStart out m w))) \<Longrightarrow>
         c \<in> set (calls w) \<or> addressee c = Some (from_id (msg_from m))"
    and "c \<in> set (calls (snd (handleCallback out cb w))) \<Longrightarrow>
         c \<in> set (calls w) \<or> addressee c = None \<or> addressee c = Some (from_id (cb_from cb))"
  by (auto simp: handleStart_def handleCallback_def sendLanguageSelection_def Let_def
      upsertUser_def getUser_def bind_username_def username_differs_def async_defs
      split: fetched.splits option.splits if_splits)

text \<open>
  C3 does not hold on the code, which tests \<^verbatim>\<open>is_blocked\<close> in
  \<^verbatim>\<open>handlePrivateMessage\<close> only. Ann is blocked: her \<^verbatim>\<open>/start\<close> is answered with
  the welcome notice, and her language selection is stored and acknowledged.
\<close>

theorem blocked_user_still_served:
  "is_blocked (Ann_row 1 1 (Some (ascii ''en''))) = 1
   \<and> users (DB Ann_blocked) 7 = Some (Ann_row 1 1 (Some (ascii ''en'')))
   \<and> webhook config delivering None (Message start) Ann_blocked
       = (OK_200,
          Ann_blocked\<lparr>calls :=
            [sendMessage 7
               (ascii ''Welcome! You can send me messages and I will forward them to the admin.'')
               None None None]\<rparr>)
   \<and> calls (snd (webhook config delivering None (Callback (pressed (ascii ''lang_ja''))) Ann_blocked))
       = [answerCallbackQuery (ascii ''q1'') (ascii ''Language set to ja''),
          editMessageText 7 40
            (0x2705 # ascii '' Language set to Japanese. You can now send messages.'')]
   \<and> users (DB (snd (webhook config delivering None (Callback (pressed (ascii ''lang_ja'')))
                       Ann_blocked))) 7
       = Some (Ann_row 1 1 (Some (ascii ''ja'')))"
  by (simp add: webhook_def dispatch_def handleStart_def handleCallback_def Let_def
      startsWith_def at_index_def language_name_def get_property_def SUPPORTED_LANGS_def
      set_language_def Ann_blocked_def start_def pressed_def example_defs upsertUser_def
      getUser_def bind_username_def username_differs_def truthy_def async_defs
      delivering_def ascii_def underscore_def)

section \<open>Admin replies\<close>

text \<open>
  What the admin is told about a reply: the notice that the sender was not found; the
  failure with its reason when the copy to the guest is rejected, that is when
  \<^verbatim>\<open>callTelegram\<close> throws; and the acknowledgment whenever the platform answers the
  copy at all.
\<close>

lemma admin_reply_outcomes:
  assumes "from_id (msg_from m) = ADMIN_USER_ID e" and "reply_to_message m = Some replied"
  shows "getOriginalSender (DB w) replied = None \<Longrightarrow>
         calls (snd (handlePrivateMessage e out m w))
           = calls w @
             [sendMessage (ADMIN_USER_ID e)
                ([0x26A0, 0xFE0F]
                   @ ascii '' Could not find original sender for this message (maybe too old).'')
                None None (Some (message_id m))]"
    and "getOriginalSender (DB w) replied = Some (u, g) \<Longrightarrow>
         telegram out (calls w) (copyMessage u (chat_id m) (message_id m) None None) = Rejects reason \<Longrightarrow>
         calls (snd (handlePrivateMessage e out m w))
           = calls w @
             [copyMessage u (chat_id m) (message_id m) None None,
              sendMessage (ADMIN_USER_ID e) (0x274C # ascii '' Failed to send: '' @ reason)
                None None (Some (message_id m))]"
    and "getOriginalSender (DB w) replied = Some (u, g) \<Longrightarrow>
         telegram out (calls w) (copyMessage u (chat_id m) (message_id m) None None) = Answers a \<Longrightarrow>
         take (Suc (Suc (length (calls w)))) (calls (snd (handlePrivateMessage e out m w)))
           = calls w @
             [copyMessage u (chat_id m) (message_id m) None None,
              sendMessage (ADMIN_USER_ID e) (0x2705 # ascii '' Reply sent.'')
                None None (Some (message_id m))]"
  using assms
  by (simp_all add: handlePrivateMessage_def admin_reply_def Let_def async_defs
      split: fetched.splits option.splits)

text \<open>
  C8 does not hold on the code when the platform refuses the delivery with an error
  response, which \<^verbatim>\<open>callTelegram\<close> returns without throwing. The admin replies to the
  relayed message 101 of Ann, who has blocked the bot: the copy to Ann is refused, and
  the admin is told that the reply was sent.
\<close>

theorem refused_reply_acknowledged_as_sent:
  "getOriginalSender (DB Ann_relayed) 101 = Some (7, 12)
   \<and> telegram copyMessage_refused (calls Ann_relayed) (copyMessage 7 1 55 None None) = Answers None
   \<and> calls (snd (handlePrivateMessage config copyMessage_refused reply_to_101 Ann_relayed))
       = [copyMessage 7 1 55 None None,
          sendMessage 1 (0x2705 # ascii '' Reply sent.'') None None (Some 55)]"
  by (simp add: handlePrivateMessage_def admin_reply_def Let_def async_defs getOriginalSender_def
      reply_to_101_def Ann_relayed_def Admin_def example_defs copyMessage_refused_def)

end
